theory Spec2Isabelle
  imports Main "HOL-Library.AList"
begin

section \<open>Data model (database/models.py)\<close>

text \<open>
  The two enumerations of the repository. Both have a member called ACTIVE in the
  source; the members of \<open>SessionStatus\<close> carry the prefix \<open>Status_\<close> here so that the
  two stay apart.
\<close>

datatype EngagementLevel = ACTIVE | MODERATE | PASSIVE

datatype SessionStatus = Status_PENDING | Status_ACTIVE | Status_ENDED

text \<open>
  Exceptions are values. \<open>SessionNotFound n\<close> is the
  \<^verbatim>\<open>ValueError(f"Session {session_id} not found")\<close> of the session manager;
  \<open>CollaboratorError\<close> stands for any exception raised by code outside the repository
  (the SQL layer, the transport of a WebSocket, the question-push callback).
\<close>

datatype exn =
    SessionNotFound int
  | KeyError
  | RuntimeError
  | TypeError
  | AttributeError
  | CollaboratorError string

text \<open>A row of the table \<open>engagement_logs\<close>; timestamps are integers (a clock reading).\<close>

record EngagementLog =
  log_id :: int
  student_id :: int
  engagement_level :: EngagementLevel
  session_id :: int
  timestamp :: int

text \<open>A row of the table \<open>sessions\<close>; \<open>row_id\<close> is the column \<open>id\<close>.\<close>

record Session =
  row_id :: int
  instructor_id :: int
  start_time :: "int option"
  end_time :: "int option"
  status :: SessionStatus
  zoom_meeting_id :: "string option"

text \<open>
  The database session as far as the modelled code reads and writes it: the two tables,
  each a list of rows in insertion order. The SQL layer is outside the repository and
  a query can raise there; \<open>query_failure d student session\<close> is the exception, if
  any, that a read of the engagement log of that student in that session raises.
\<close>

record db =
  engagement_logs :: "EngagementLog list"
  sessions :: "Session list"
  query_failure :: "int \<Rightarrow> int \<Rightarrow> exn option"

section \<open>Engagement classifier (engagement_classifier/model.py, classifier.py)\<close>

record EngagementClassifierModel =
  model :: "unit option"
  model_path :: "string option"
  is_loaded :: bool

text \<open>Python truthiness of an optional string: \<open>None\<close> and the empty string are false.\<close>

definition truthy_str :: "string option \<Rightarrow> bool" where
  "truthy_str s = (case s of None \<Rightarrow> False | Some t \<Rightarrow> t \<noteq> [])"

definition load_model :: "EngagementClassifierModel \<Rightarrow> EngagementClassifierModel" where
  "load_model m = m\<lparr>is_loaded := False\<rparr>"

definition EngagementClassifierModel_init :: "string option \<Rightarrow> EngagementClassifierModel" where
  "EngagementClassifierModel_init path =
     (let m = \<lparr>model = None, model_path = path, is_loaded = False\<rparr>
      in if truthy_str path then load_model m else m)"

text \<open>The body of \<open>predict\<close> after its guard is \<^verbatim>\<open>pass\<close>: it returns \<open>None\<close>.\<close>

definition predict :: "EngagementClassifierModel \<Rightarrow> exn + string option" where
  "predict m = (if \<not> is_loaded m \<or> model m = None then Inl RuntimeError else Inr None)"

record EngagementClassifier =
  use_ml :: bool
  ml_model :: "EngagementClassifierModel option"

definition EngagementClassifier_init :: "bool \<Rightarrow> string option \<Rightarrow> EngagementClassifier" where
  "EngagementClassifier_init use_ml_model path =
     \<lparr>use_ml = use_ml_model,
      ml_model = (if use_ml_model \<and> truthy_str path
                  then Some (EngagementClassifierModel_init path) else None)\<rparr>"

definition classify_with_rules :: "int \<Rightarrow> bool \<Rightarrow> EngagementLevel" where
  "classify_with_rules response_time_ms is_correct =
     (if response_time_ms < 4000 \<and> is_correct then ACTIVE
      else if response_time_ms > 7000 \<or> \<not> is_correct then PASSIVE
      else MODERATE)"

text \<open>
  The learned path: unpacking an absent context raises \<open>TypeError\<close>, \<open>predict\<close> raises
  or returns \<open>None\<close>, and \<^verbatim>\<open>prediction.upper()\<close> on \<open>None\<close> raises \<open>AttributeError\<close>.
\<close>

definition classify_with_ml ::
  "EngagementClassifier \<Rightarrow> int \<Rightarrow> bool \<Rightarrow> 'c option \<Rightarrow> exn + EngagementLevel" where
  "classify_with_ml c response_time_ms is_correct additional_context =
     (case additional_context of
        None \<Rightarrow> Inl TypeError
      | Some ctx \<Rightarrow>
          (case ml_model c of
             None \<Rightarrow> Inl AttributeError
           | Some m \<Rightarrow>
               (case predict m of
                  Inl e \<Rightarrow> Inl e
                | Inr prediction \<Rightarrow> Inl AttributeError)))"

definition classify ::
  "EngagementClassifier \<Rightarrow> int \<Rightarrow> bool \<Rightarrow> 'c option \<Rightarrow> exn + EngagementLevel" where
  "classify c response_time_ms is_correct additional_context =
     (if use_ml c \<and> ml_model c \<noteq> None \<and> is_loaded (the (ml_model c))
      then classify_with_ml c response_time_ms is_correct additional_context
      else Inr (classify_with_rules response_time_ms is_correct))"

definition create_classifier :: "bool \<Rightarrow> string option \<Rightarrow> EngagementClassifier" where
  "create_classifier use_ml_flag path = EngagementClassifier_init use_ml_flag path"

section \<open>Engagement service (services/engagement_service.py)\<close>

record EngagementService =
  classifier :: EngagementClassifier

definition EngagementService_init :: EngagementService where
  "EngagementService_init = \<lparr>classifier = create_classifier False None\<rparr>"

definition classify_engagement :: "EngagementService \<Rightarrow> int \<Rightarrow> bool \<Rightarrow> exn + EngagementLevel" where
  "classify_engagement svc response_time_ms is_correct =
     classify (classifier svc) response_time_ms is_correct (None :: unit option)"

text \<open>The key the table assigns to a new row: one more than the largest key so far.\<close>

definition next_log_id :: "EngagementLog list \<Rightarrow> int" where
  "next_log_id rows = foldr max (map log_id rows) 0 + 1"

text \<open>\<open>now\<close> is the reading of \<^verbatim>\<open>datetime.utcnow()\<close> at the call.\<close>

definition log_engagement ::
  "EngagementService \<Rightarrow> db \<Rightarrow> int \<Rightarrow> int \<Rightarrow> int \<Rightarrow> bool \<Rightarrow> int \<Rightarrow> exn + EngagementLog \<times> db" where
  "log_engagement svc d student session response_time_ms is_correct now =
     (case classify_engagement svc response_time_ms is_correct of
        Inl e \<Rightarrow> Inl e
      | Inr level \<Rightarrow>
          (let row = \<lparr>log_id = next_log_id (engagement_logs d), student_id = student,
                      engagement_level = level, session_id = session, timestamp = now\<rparr>
           in Inr (row, d\<lparr>engagement_logs := engagement_logs d @ [row]\<rparr>)))"

text \<open>
  \<^verbatim>\<open>order_by(timestamp.desc())\<close>: the rows by decreasing timestamp. SQL leaves the
  order of rows with equal timestamps open; the stable sort used here keeps them in table
  order, and no theorem below depends on that choice. \<^verbatim>\<open>first()\<close> is the head of
  the result, or \<open>None\<close>.
\<close>

definition order_by_timestamp_desc :: "EngagementLog list \<Rightarrow> EngagementLog list" where
  "order_by_timestamp_desc rows = sort_key (\<lambda>l. - timestamp l) rows"

definition query_first :: "'a list \<Rightarrow> 'a option" where
  "query_first rows = (case rows of [] \<Rightarrow> None | r # rest \<Rightarrow> Some r)"

definition get_current_engagement :: "db \<Rightarrow> int \<Rightarrow> int \<Rightarrow> exn + EngagementLevel option" where
  "get_current_engagement d student session =
     (case query_failure d student session of
        Some e \<Rightarrow> Inl e
      | None \<Rightarrow>
          (case query_first (order_by_timestamp_desc
                  (filter (\<lambda>l. session_id l = session)
                     (filter (\<lambda>l. student_id l = student) (engagement_logs d)))) of
             None \<Rightarrow> Inr None
           | Some log \<Rightarrow> Inr (Some (engagement_level log))))"

section \<open>Adaptive engine (services/adaptive_engine.py)\<close>

text \<open>
  The scheduler library is outside the repository: of it the model keeps the identifiers
  of the scheduled jobs and whether it was started.
\<close>

record Scheduler =
  jobs :: "string list"
  started :: bool

text \<open>
  The dictionary \<open>active_sessions\<close> is an association list in insertion order, which is
  the order a tick visits the sessions in. A roster, a Python set of student ids, is the
  list of its members in the order the loop over it visits them. The question-push
  callback returns the exception it raises, if any. The session factory opens a session
  on the database: given the state of the database at the call, it returns the session
  the tick reads through (in main.py, that state itself).
\<close>

record AdaptiveEngine =
  scheduler :: Scheduler
  engagement_service :: EngagementService
  active_sessions :: "(int \<times> int list) list"
  question_push_callback :: "(int \<Rightarrow> int set \<Rightarrow> exn option) option"
  db_session_factory :: "(db \<Rightarrow> db) option"
  running :: bool

definition AdaptiveEngine_init :: AdaptiveEngine where
  "AdaptiveEngine_init =
     \<lparr>scheduler = \<lparr>jobs = [], started = False\<rparr>,
      engagement_service = EngagementService_init,
      active_sessions = [],
      question_push_callback = None,
      db_session_factory = None,
      running = False\<rparr>"

definition initialize ::
  "AdaptiveEngine \<Rightarrow> (db \<Rightarrow> db) \<Rightarrow> (int \<Rightarrow> int set \<Rightarrow> exn option) \<Rightarrow> AdaptiveEngine" where
  "initialize e factory callback =
     e\<lparr>db_session_factory := Some factory, question_push_callback := Some callback\<rparr>"

text \<open>\<^verbatim>\<open>add_job(..., id='monitor_engagement', replace_existing=True)\<close>.\<close>

definition add_job :: "string \<Rightarrow> Scheduler \<Rightarrow> Scheduler" where
  "add_job job s = s\<lparr>jobs := (if job \<in> set (jobs s) then jobs s else jobs s @ [job])\<rparr>"

definition start :: "AdaptiveEngine \<Rightarrow> AdaptiveEngine" where
  "start e =
     (if running e then e
      else e\<lparr>scheduler := (add_job ''monitor_engagement'' (scheduler e))\<lparr>started := True\<rparr>,
             running := True\<rparr>)"

definition stop :: "AdaptiveEngine \<Rightarrow> AdaptiveEngine" where
  "stop e =
     (if \<not> running e then e
      else e\<lparr>scheduler := (scheduler e)\<lparr>started := False\<rparr>, running := False\<rparr>)"

definition add_session :: "AdaptiveEngine \<Rightarrow> int \<Rightarrow> int list \<Rightarrow> AdaptiveEngine" where
  "add_session e session student_ids =
     e\<lparr>active_sessions := AList.update session student_ids (active_sessions e)\<rparr>"

definition remove_session :: "AdaptiveEngine \<Rightarrow> int \<Rightarrow> AdaptiveEngine" where
  "remove_session e session =
     (if session \<in> fst ` set (active_sessions e)
      then e\<lparr>active_sessions := AList.delete session (active_sessions e)\<rparr>
      else e)"

definition update_session_students :: "AdaptiveEngine \<Rightarrow> int \<Rightarrow> int list \<Rightarrow> AdaptiveEngine" where
  "update_session_students e session student_ids =
     (if session \<in> fst ` set (active_sessions e)
      then e\<lparr>active_sessions := AList.update session student_ids (active_sessions e)\<rparr>
      else e)"

definition should_deliver_question :: "EngagementLevel option \<Rightarrow> int \<Rightarrow> int \<Rightarrow> bool" where
  "should_deliver_question engagement student session =
     (if engagement = None then True
      else if engagement = Some PASSIVE then True
      else if engagement = Some MODERATE then True
      else if engagement = Some ACTIVE then False
      else False)"

text \<open>
  The loop of \<open>_identify_students_needing_questions\<close>, with the set built so far as
  accumulator. An exception of the store read leaves the loop at once.
\<close>

fun identify_loop :: "db \<Rightarrow> int \<Rightarrow> int list \<Rightarrow> int set \<Rightarrow> exn + int set" where
  "identify_loop d session [] students_needing_questions = Inr students_needing_questions"
| "identify_loop d session (student # rest) students_needing_questions =
     (case get_current_engagement d student session of
        Inl e \<Rightarrow> Inl e
      | Inr engagement \<Rightarrow>
          identify_loop d session rest
            (if should_deliver_question engagement student session
             then insert student students_needing_questions
             else students_needing_questions))"

definition identify_students_needing_questions :: "db \<Rightarrow> int \<Rightarrow> int list \<Rightarrow> exn + int set" where
  "identify_students_needing_questions d session student_ids =
     identify_loop d session student_ids {}"

text \<open>
  The loop of \<open>_monitor_engagement\<close> over the snapshot of the sessions. Its result is the
  list of calls made to the callback, in order, and the exception that ended the loop, if
  one did. A call that raised is in the list: it was made.
\<close>

fun monitor_loop ::
  "(int \<Rightarrow> int set \<Rightarrow> exn option) \<Rightarrow> db \<Rightarrow> (int \<times> int list) list
   \<Rightarrow> (int \<times> int set) list \<times> exn option" where
  "monitor_loop callback d [] = ([], None)"
| "monitor_loop callback d ((session, student_ids) # rest) =
     (case identify_students_needing_questions d session student_ids of
        Inl e \<Rightarrow> ([], Some e)
      | Inr students_needing_questions \<Rightarrow>
          if students_needing_questions \<noteq> {}
          then (case callback session students_needing_questions of
                  Some e \<Rightarrow> ([(session, students_needing_questions)], Some e)
                | None \<Rightarrow>
                    (case monitor_loop callback d rest of
                       (calls, err) \<Rightarrow> ((session, students_needing_questions) # calls, err)))
          else monitor_loop callback d rest)"

datatype log_line = NotProperlyInitialized | ErrorInEngagementMonitoring exn

text \<open>
  What one tick did: the callback calls, the error lines logged, whether it closed the
  database session it opened. A tick runs on the engine and on the state of the database
  at that moment.
\<close>

record tick =
  callback_calls :: "(int \<times> int set) list"
  error_log :: "log_line list"
  db_closed :: bool

definition monitor_engagement :: "AdaptiveEngine \<Rightarrow> db \<Rightarrow> tick" where
  "monitor_engagement e database =
     (case db_session_factory e of
        None \<Rightarrow> \<lparr>callback_calls = [], error_log = [NotProperlyInitialized], db_closed = False\<rparr>
      | Some factory \<Rightarrow>
          (case question_push_callback e of
             None \<Rightarrow>
               \<lparr>callback_calls = [], error_log = [NotProperlyInitialized], db_closed = False\<rparr>
           | Some callback \<Rightarrow>
               (case monitor_loop callback (factory database) (active_sessions e) of
                  (calls, None) \<Rightarrow> \<lparr>callback_calls = calls, error_log = [], db_closed = True\<rparr>
                | (calls, Some err) \<Rightarrow>
                    \<lparr>callback_calls = calls, error_log = [ErrorInEngagementMonitoring err],
                     db_closed = True\<rparr>)))"

section \<open>Zoom event handler (zoom_integrator/zoom_events.py)\<close>

text \<open>Of the handler the session manager uses the dictionary of monitored meetings.\<close>

record ZoomEventHandler =
  active_participants :: "(string \<times> string list) list"

definition start_monitoring :: "ZoomEventHandler \<Rightarrow> string \<Rightarrow> ZoomEventHandler" where
  "start_monitoring h meeting_id =
     h\<lparr>active_participants := AList.update meeting_id [] (active_participants h)\<rparr>"

definition stop_monitoring :: "ZoomEventHandler \<Rightarrow> string \<Rightarrow> ZoomEventHandler" where
  "stop_monitoring h meeting_id =
     (if meeting_id \<in> fst ` set (active_participants h)
      then h\<lparr>active_participants := AList.delete meeting_id (active_participants h)\<rparr>
      else h)"

section \<open>Session manager (zoom_integrator/session_manager.py)\<close>

text \<open>
  The manager holds the zoom handler and the adaptive engine; the database session is an
  argument of every method, and is returned with the rows as committed. A method that
  raises returns the exception and no state.
\<close>

record SessionManager =
  zoom_handler :: ZoomEventHandler
  adaptive_engine :: AdaptiveEngine

definition SessionManager_init :: SessionManager where
  "SessionManager_init =
     \<lparr>zoom_handler = \<lparr>active_participants = []\<rparr>, adaptive_engine = AdaptiveEngine_init\<rparr>"

text \<open>\<^verbatim>\<open>db.query(models.Session).filter(models.Session.id == session_id).first()\<close>\<close>

definition query_session :: "db \<Rightarrow> int \<Rightarrow> Session option" where
  "query_session d session = List.find (\<lambda>s. row_id s = session) (sessions d)"

text \<open>Attribute assignments to the row that the query returned, then \<^verbatim>\<open>db.commit()\<close>.\<close>

fun update_first :: "('a \<Rightarrow> bool) \<Rightarrow> ('a \<Rightarrow> 'a) \<Rightarrow> 'a list \<Rightarrow> 'a list" where
  "update_first P f [] = []"
| "update_first P f (x # xs) = (if P x then f x # xs else x # update_first P f xs)"

definition commit_session :: "db \<Rightarrow> int \<Rightarrow> (Session \<Rightarrow> Session) \<Rightarrow> db" where
  "commit_session d session f =
     d\<lparr>sessions := update_first (\<lambda>s. row_id s = session) f (sessions d)\<rparr>"

definition next_session_id :: "Session list \<Rightarrow> int" where
  "next_session_id rows = foldr max (map row_id rows) 0 + 1"

definition create_session ::
  "SessionManager \<Rightarrow> db \<Rightarrow> int \<Rightarrow> string option \<Rightarrow> int \<Rightarrow> Session \<times> db" where
  "create_session m d instructor meeting now =
     (let session = \<lparr>row_id = next_session_id (sessions d), instructor_id = instructor,
                      start_time = Some now, end_time = None, status = Status_PENDING,
                      zoom_meeting_id = meeting\<rparr>
      in (session, d\<lparr>sessions := sessions d @ [session]\<rparr>))"

definition start_session ::
  "SessionManager \<Rightarrow> db \<Rightarrow> int \<Rightarrow> int list \<Rightarrow> exn + SessionManager \<times> db" where
  "start_session m d session_key student_ids =
     (case query_session d session_key of
        None \<Rightarrow> Inl (SessionNotFound session_key)
      | Some session \<Rightarrow>
          (let d' = commit_session d session_key (\<lambda>s. s\<lparr>status := Status_ACTIVE\<rparr>);
               engine = add_session (adaptive_engine m) session_key student_ids;
               handler = (if truthy_str (zoom_meeting_id session)
                          then start_monitoring (zoom_handler m) (the (zoom_meeting_id session))
                          else zoom_handler m)
           in Inr (m\<lparr>zoom_handler := handler, adaptive_engine := engine\<rparr>, d')))"

text \<open>\<open>now\<close> is the reading of \<^verbatim>\<open>datetime.utcnow()\<close> at the call.\<close>

definition stop_session ::
  "SessionManager \<Rightarrow> db \<Rightarrow> int \<Rightarrow> int \<Rightarrow> exn + SessionManager \<times> db" where
  "stop_session m d session_key now =
     (case query_session d session_key of
        None \<Rightarrow> Inl (SessionNotFound session_key)
      | Some session \<Rightarrow>
          (let d' = commit_session d session_key
                      (\<lambda>s. s\<lparr>status := Status_ENDED, end_time := Some now\<rparr>);
               engine = remove_session (adaptive_engine m) session_key;
               handler = (if truthy_str (zoom_meeting_id session)
                          then stop_monitoring (zoom_handler m) (the (zoom_meeting_id session))
                          else zoom_handler m)
           in Inr (m\<lparr>zoom_handler := handler, adaptive_engine := engine\<rparr>, d')))"

section \<open>Connection registries (websocket/instructor_ws.py, websocket/student_ws.py)\<close>

text \<open>
  A WebSocket object is its identity, a number. The dictionaries are association lists
  in insertion order, which is the order the loops over them run in; a set of
  connections is the list of its members. \<open>set_add\<close> and \<open>set_remove\<close> are the
  methods \<open>add\<close> and \<open>remove\<close> of a Python set; \<open>remove\<close> raises \<open>KeyError\<close> on a
  member that is not there. The transport is outside the repository:
  \<open>send_json ws\<close> is the exception that sending on the channel raises, if any, and
  \<^verbatim>\<open>websocket.accept()\<close> is taken to succeed.
\<close>

type_synonym WebSocket = nat

definition set_add :: "'a \<Rightarrow> 'a list \<Rightarrow> 'a list" where
  "set_add x xs = (if x \<in> set xs then xs else xs @ [x])"

definition set_remove :: "'a \<Rightarrow> 'a list \<Rightarrow> exn + 'a list" where
  "set_remove x xs = (if x \<in> set xs then Inr (removeAll x xs) else Inl KeyError)"

text \<open>What a send did on a channel, or the warning it logged instead.\<close>

datatype send_event =
    Sent WebSocket
  | SendError WebSocket exn
  | NoActiveConnections int
  | StudentNotConnected int int

record InstructorWebSocketManager =
  instructor_connections :: "(int \<times> WebSocket list) list"
  instructor_sessions :: "(WebSocket \<times> int) list"

definition InstructorWebSocketManager_init :: InstructorWebSocketManager where
  "InstructorWebSocketManager_init = \<lparr>instructor_connections = [], instructor_sessions = []\<rparr>"

text \<open>The field \<open>instructor_connections\<close> is \<open>active_connections\<close> of the instructor side.\<close>

definition instructor_connect ::
  "InstructorWebSocketManager \<Rightarrow> WebSocket \<Rightarrow> int \<Rightarrow> InstructorWebSocketManager" where
  "instructor_connect m websocket instructor =
     (let conns = (if instructor \<notin> fst ` set (instructor_connections m)
                   then AList.update instructor [] (instructor_connections m)
                   else instructor_connections m);
          conns' = AList.update instructor
                     (set_add websocket (the (map_of conns instructor))) conns
      in m\<lparr>instructor_connections := conns',
            instructor_sessions := AList.update websocket instructor (instructor_sessions m)\<rparr>)"

text \<open>
  \<^verbatim>\<open>if instructor_id and instructor_id in self.active_connections\<close>: the first
  conjunct is the truth value of an optional integer, false for \<open>None\<close> and for 0.
\<close>

definition truthy_int :: "int option \<Rightarrow> bool" where
  "truthy_int v = (case v of None \<Rightarrow> False | Some n \<Rightarrow> n \<noteq> 0)"

definition instructor_disconnect ::
  "InstructorWebSocketManager \<Rightarrow> WebSocket \<Rightarrow> exn + InstructorWebSocketManager" where
  "instructor_disconnect m websocket =
     (let instructor = map_of (instructor_sessions m) websocket;
          removed =
            (if truthy_int instructor \<and> the instructor \<in> fst ` set (instructor_connections m)
             then (case set_remove websocket
                          (the (map_of (instructor_connections m) (the instructor))) of
                     Inl e \<Rightarrow> Inl e
                   | Inr conns \<Rightarrow>
                       Inr (AList.update (the instructor) conns (instructor_connections m)))
             else Inr (instructor_connections m))
      in case removed of
           Inl e \<Rightarrow> Inl e
         | Inr conns' \<Rightarrow>
             Inr (m\<lparr>instructor_connections := conns',
                    instructor_sessions :=
                      (if websocket \<in> fst ` set (instructor_sessions m)
                       then AList.delete websocket (instructor_sessions m)
                       else instructor_sessions m)\<rparr>))"

text \<open>The loop of the fan-out, with the \<^verbatim>\<open>try\<close> inside it.\<close>

fun send_each :: "(WebSocket \<Rightarrow> exn option) \<Rightarrow> WebSocket list \<Rightarrow> send_event list" where
  "send_each send_json [] = []"
| "send_each send_json (websocket # rest) =
     (case send_json websocket of
        None \<Rightarrow> Sent websocket
      | Some e \<Rightarrow> SendError websocket e) # send_each send_json rest"

definition send_dashboard_update ::
  "InstructorWebSocketManager \<Rightarrow> (WebSocket \<Rightarrow> exn option) \<Rightarrow> int \<Rightarrow> send_event list" where
  "send_dashboard_update m send_json instructor =
     (if instructor \<notin> fst ` set (instructor_connections m) then []
      else send_each send_json (the (map_of (instructor_connections m) instructor)))"

definition send_engagement_update ::
  "InstructorWebSocketManager \<Rightarrow> (WebSocket \<Rightarrow> exn option) \<Rightarrow> int \<Rightarrow> send_event list" where
  "send_engagement_update m send_json instructor =
     (if instructor \<notin> fst ` set (instructor_connections m) then []
      else send_each send_json (the (map_of (instructor_connections m) instructor)))"

record StudentWebSocketManager =
  student_connections :: "(int \<times> WebSocket list) list"
  student_sessions :: "(WebSocket \<times> int) list"

definition StudentWebSocketManager_init :: StudentWebSocketManager where
  "StudentWebSocketManager_init = \<lparr>student_connections = [], student_sessions = []\<rparr>"

text \<open>
  The field \<open>student_connections\<close> is \<open>active_connections\<close> of the student side, keyed by
  session; \<open>student_sessions\<close> maps a channel to its student.
\<close>

definition student_connect ::
  "StudentWebSocketManager \<Rightarrow> WebSocket \<Rightarrow> int \<Rightarrow> int \<Rightarrow> StudentWebSocketManager" where
  "student_connect m websocket session student =
     (let conns = (if session \<notin> fst ` set (student_connections m)
                   then AList.update session [] (student_connections m)
                   else student_connections m);
          conns' = AList.update session (set_add websocket (the (map_of conns session))) conns
      in m\<lparr>student_connections := conns',
            student_sessions := AList.update websocket student (student_sessions m)\<rparr>)"

text \<open>The loop of \<open>disconnect\<close> over the sessions, left at the first set that holds the
  channel.\<close>

fun remove_from_first ::
  "WebSocket \<Rightarrow> (int \<times> WebSocket list) list \<Rightarrow> (int \<times> WebSocket list) list" where
  "remove_from_first websocket [] = []"
| "remove_from_first websocket ((session, connections) # rest) =
     (if websocket \<in> set connections
      then (session, removeAll websocket connections) # rest
      else (session, connections) # remove_from_first websocket rest)"

definition student_disconnect ::
  "StudentWebSocketManager \<Rightarrow> WebSocket \<Rightarrow> StudentWebSocketManager" where
  "student_disconnect m websocket =
     m\<lparr>student_connections := remove_from_first websocket (student_connections m),
       student_sessions :=
         (if websocket \<in> fst ` set (student_sessions m)
          then AList.delete websocket (student_sessions m)
          else student_sessions m)\<rparr>"

definition send_question_to_student ::
  "StudentWebSocketManager \<Rightarrow> (WebSocket \<Rightarrow> exn option) \<Rightarrow> int \<Rightarrow> int \<Rightarrow> send_event list" where
  "send_question_to_student m send_json session student =
     (if session \<notin> fst ` set (student_connections m) then [NoActiveConnections session]
      else
        (case List.find
                (\<lambda>(ws, sid). sid = student
                    \<and> ws \<in> set (the (map_of (student_connections m) session)))
                (student_sessions m) of
           Some (target_websocket, sid) \<Rightarrow>
             (case send_json target_websocket of
                None \<Rightarrow> [Sent target_websocket]
              | Some e \<Rightarrow> [SendError target_websocket e])
         | None \<Rightarrow> [StudentNotConnected student session]))"

section \<open>Concrete states used in the examples\<close>

text \<open>
  A log with three events of student 1 in session 42, recorded out of timestamp order,
  and one event of student 2.
\<close>

definition example_log_db :: db where
  "example_log_db =
     \<lparr>engagement_logs =
        [\<lparr>log_id = 1, student_id = 1, engagement_level = ACTIVE, session_id = 42, timestamp = 10\<rparr>,
         \<lparr>log_id = 2, student_id = 1, engagement_level = PASSIVE, session_id = 42, timestamp = 30\<rparr>,
         \<lparr>log_id = 3, student_id = 1, engagement_level = MODERATE, session_id = 42, timestamp = 20\<rparr>,
         \<lparr>log_id = 4, student_id = 2, engagement_level = ACTIVE, session_id = 42, timestamp = 40\<rparr>],
      sessions = [],
      query_failure = (\<lambda>student session. None)\<rparr>"

text \<open>
  The scenario of session 42 with the roster of students 1 and 2: the empty database,
  the rows that two graded responses append, and the engine as main.py wires it, with a
  callback that returns normally.
\<close>

definition scenario_db0 :: db where
  "scenario_db0 = \<lparr>engagement_logs = [], sessions = [], query_failure = (\<lambda>student session. None)\<rparr>"

definition scenario_row1 :: EngagementLog where
  "scenario_row1 =
     \<lparr>log_id = 1, student_id = 1, engagement_level = ACTIVE, session_id = 42, timestamp = 10\<rparr>"

definition scenario_row2 :: EngagementLog where
  "scenario_row2 =
     \<lparr>log_id = 2, student_id = 2, engagement_level = PASSIVE, session_id = 42, timestamp = 20\<rparr>"

definition scenario_db1 :: db where
  "scenario_db1 = scenario_db0\<lparr>engagement_logs := [scenario_row1]\<rparr>"

definition scenario_db2 :: db where
  "scenario_db2 = scenario_db0\<lparr>engagement_logs := [scenario_row1, scenario_row2]\<rparr>"

definition scenario_engine :: AdaptiveEngine where
  "scenario_engine =
     add_session (initialize AdaptiveEngine_init (\<lambda>d. d) (\<lambda>session students. None)) 42 [1, 2]"

text \<open>
  Engines over two and three sessions whose callback raises for session 1 only, and a
  database whose log cannot be read for student 10 in session 1.
\<close>

definition failing_callback :: "int \<Rightarrow> int set \<Rightarrow> exn option" where
  "failing_callback session students =
     (if session = 1 then Some (CollaboratorError ''push failed'') else None)"

definition two_session_engine :: AdaptiveEngine where
  "two_session_engine =
     add_session (add_session (initialize AdaptiveEngine_init (\<lambda>d. d) failing_callback) 1 [10]) 2 [20]"

definition three_session_engine :: AdaptiveEngine where
  "three_session_engine =
     add_session (add_session (add_session
       (initialize AdaptiveEngine_init (\<lambda>d. d) failing_callback) 3 [30]) 1 [10]) 2 [20]"

definition unreadable_db :: db where
  "unreadable_db =
     \<lparr>engagement_logs = [], sessions = [],
      query_failure = (\<lambda>student session.
         if student = 10 \<and> session = 1 then Some (CollaboratorError ''store read failed'')
         else None)\<rparr>"

definition quiet_two_session_engine :: AdaptiveEngine where
  "quiet_two_session_engine =
     add_session (add_session
       (initialize AdaptiveEngine_init (\<lambda>d. d) (\<lambda>session students. None)) 1 [10]) 2 [20]"

text \<open>
  A session of instructor 7 without a meeting, created at time 0, started with the
  roster of students 1 and 2 and stopped at time 50: the row as created, and the
  database before the start, after the start and after the stop.
\<close>

definition pending_row :: Session where
  "pending_row =
     \<lparr>row_id = 1, instructor_id = 7, start_time = Some 0, end_time = None,
      status = Status_PENDING, zoom_meeting_id = None\<rparr>"

definition pending_session_db :: db where
  "pending_session_db = scenario_db0\<lparr>sessions := [pending_row]\<rparr>"

definition active_session_db :: db where
  "active_session_db = scenario_db0\<lparr>sessions := [pending_row\<lparr>status := Status_ACTIVE\<rparr>]\<rparr>"

definition ended_session_db :: db where
  "ended_session_db =
     scenario_db0\<lparr>sessions := [pending_row\<lparr>status := Status_ENDED, end_time := Some 50\<rparr>]\<rparr>"

definition monitoring_manager :: SessionManager where
  "monitoring_manager =
     SessionManager_init\<lparr>adaptive_engine := add_session AdaptiveEngine_init 1 [1, 2]\<rparr>"

text \<open>
  Registries after two connections of one owner: student 7 of session 1 on the channels
  1 and 2, instructor 3 on the channels 1 and 2. A transport on which sending on
  channel 1 raises. The instructor registry after the only channel of instructor 0 was
  connected and disconnected.
\<close>

definition two_channel_students :: StudentWebSocketManager where
  "two_channel_students =
     student_connect (student_connect StudentWebSocketManager_init 1 1 7) 2 1 7"

definition two_channel_instructor :: InstructorWebSocketManager where
  "two_channel_instructor =
     instructor_connect (instructor_connect InstructorWebSocketManager_init 1 3) 2 3"

definition first_channel_fails :: "WebSocket \<Rightarrow> exn option" where
  "first_channel_fails websocket =
     (if websocket = 1 then Some (CollaboratorError ''send failed'') else None)"

definition zero_owner_leftover :: InstructorWebSocketManager where
  "zero_owner_leftover = \<lparr>instructor_connections = [(0, [5])], instructor_sessions = []\<rparr>"

section \<open>Properties of the classifier\<close>

lemma init_model_not_loaded: "\<not> is_loaded (EngagementClassifierModel_init path)"
  by (simp add: EngagementClassifierModel_init_def load_model_def Let_def)

lemma classify_factory_rules:
  "classify (create_classifier u path) rt ok ctx = Inr (classify_with_rules rt ok)"
  by (simp add: classify_def create_classifier_def EngagementClassifier_init_def
      init_model_not_loaded)

text \<open>
  Claim C2. For every latency and correctness flag, the rules path returns ACTIVE
  exactly when the latency is below 4000 and the answer is correct, PASSIVE exactly when
  the latency is above 7000 or the answer is incorrect (and the ACTIVE rule did not
  apply), and MODERATE exactly in the remaining case, a correct answer with latency
  from 4000 to 7000. A correct answer at exactly 4000 is MODERATE, and a correct answer
  at exactly 7000 is MODERATE too: the latency clause alone does not make it PASSIVE.
  Every classifier the factory builds takes the rules path, without an error result.
  The statement holds for every integer, so for every non-negative one.
\<close>

theorem classify_rules_table:
  "(classify_with_rules rt ok = ACTIVE) = (rt < 4000 \<and> ok)
   \<and> (classify_with_rules rt ok = PASSIVE) = ((rt > 7000 \<or> \<not> ok) \<and> \<not> (rt < 4000 \<and> ok))
   \<and> (classify_with_rules rt ok = MODERATE) = (4000 \<le> rt \<and> rt \<le> 7000 \<and> ok)
   \<and> classify_with_rules 4000 True = MODERATE
   \<and> classify_with_rules 7000 True = MODERATE
   \<and> classify (create_classifier u path) rt ok ctx = Inr (classify_with_rules rt ok)"
proof -
  have a: "(classify_with_rules rt ok = ACTIVE) = (rt < 4000 \<and> ok)"
    by (simp add: classify_with_rules_def)
  have p: "(classify_with_rules rt ok = PASSIVE)
           = ((rt > 7000 \<or> \<not> ok) \<and> \<not> (rt < 4000 \<and> ok))"
    by (simp add: classify_with_rules_def)
  have m: "(classify_with_rules rt ok = MODERATE) = (4000 \<le> rt \<and> rt \<le> 7000 \<and> ok)"
    by (auto simp add: classify_with_rules_def)
  have b: "classify_with_rules 4000 True = MODERATE" "classify_with_rules 7000 True = MODERATE"
    by (simp_all add: classify_with_rules_def)
  show ?thesis using a p m b classify_factory_rules by blast
qed

section \<open>Properties of the engagement store\<close>

lemma query_first_None: "(query_first rows = None) = (rows = [])"
  by (cases rows) (simp_all add: query_first_def)

lemma order_by_Nil: "(order_by_timestamp_desc rows = []) = (rows = [])"
  by (cases rows) (auto simp: order_by_timestamp_desc_def)

lemma query_first_latest:
  assumes "query_first (order_by_timestamp_desc rows) = Some l"
  shows "l \<in> set rows \<and> (\<forall>l' \<in> set rows. timestamp l' \<le> timestamp l)"
proof -
  from assms obtain rest where eq: "sort_key (\<lambda>l. - timestamp l) rows = l # rest"
    by (auto simp: query_first_def order_by_timestamp_desc_def split: list.splits)
  have s: "set (l # rest) = set rows"
    using eq set_sort[of "\<lambda>l. - timestamp l" rows] by simp
  have "sorted (map (\<lambda>l. - timestamp l) (l # rest))"
    using eq sorted_sort_key[of "\<lambda>l. - timestamp l" rows] by simp
  then have "\<forall>x \<in> set rest. timestamp x \<le> timestamp l" by auto
  with s show ?thesis by auto
qed

lemma gce_None:
  assumes "query_failure d student session = None"
  shows "(get_current_engagement d student session = Inr None)
      = (\<not> (\<exists>l \<in> set (engagement_logs d). student_id l = student \<and> session_id l = session))"
proof -
  let ?rows = "filter (\<lambda>l. session_id l = session)
                     (filter (\<lambda>l. student_id l = student) (engagement_logs d))"
  have "(get_current_engagement d student session = Inr None)
        = (query_first (order_by_timestamp_desc ?rows) = None)"
    using assms
    by (cases "query_first (order_by_timestamp_desc ?rows)")
       (simp_all add: get_current_engagement_def)
  also have "\<dots> = (?rows = [])"
    by (simp only: query_first_None order_by_Nil)
  also have "\<dots> = (\<not> (\<exists>l \<in> set (engagement_logs d). student_id l = student \<and> session_id l = session))"
    by (auto simp: filter_empty_conv)
  finally show ?thesis .
qed

lemma gce_Some:
  assumes "query_failure d student session = None"
    and "get_current_engagement d student session = Inr (Some t)"
  shows "\<exists>l \<in> set (engagement_logs d). student_id l = student \<and> session_id l = session
           \<and> engagement_level l = t
           \<and> (\<forall>l' \<in> set (engagement_logs d). student_id l' = student \<and> session_id l' = session
                 \<longrightarrow> timestamp l' \<le> timestamp l)"
proof -
  let ?rows = "filter (\<lambda>l. session_id l = session)
                     (filter (\<lambda>l. student_id l = student) (engagement_logs d))"
  from assms obtain l where l: "query_first (order_by_timestamp_desc ?rows) = Some l"
     and t: "engagement_level l = t"
    by (auto simp: get_current_engagement_def split: option.splits)
  from query_first_latest[OF l] have "l \<in> set ?rows" "\<forall>l' \<in> set ?rows. timestamp l' \<le> timestamp l"
    by blast+
  with t show ?thesis by auto
qed

lemma gce_total:
  assumes "query_failure d student session = None"
  shows "\<exists>r. get_current_engagement d student session = Inr r"
  using assms by (auto simp: get_current_engagement_def split: option.splits)

lemma gce_unique_latest:
  assumes qf: "query_failure d student session = None"
    and l: "l \<in> set (engagement_logs d)" "student_id l = student" "session_id l = session"
    and late: "\<forall>l' \<in> set (engagement_logs d). student_id l' = student \<and> session_id l' = session
                 \<and> l' \<noteq> l \<longrightarrow> timestamp l' < timestamp l"
  shows "get_current_engagement d student session = Inr (Some (engagement_level l))"
proof -
  from gce_total[OF qf] obtain r where r: "get_current_engagement d student session = Inr r" ..
  show ?thesis
  proof (cases r)
    case None
    with r gce_None[OF qf] l show ?thesis by auto
  next
    case (Some t)
    with r gce_Some[OF qf] obtain m where m: "m \<in> set (engagement_logs d)" "student_id m = student"
      "session_id m = session" "engagement_level m = t"
      "\<forall>l' \<in> set (engagement_logs d). student_id l' = student \<and> session_id l' = session
                 \<longrightarrow> timestamp l' \<le> timestamp m" by blast
    have "m = l"
    proof (rule ccontr)
      assume "m \<noteq> l"
      with late m have "timestamp m < timestamp l" by blast
      moreover from m(5) l have "timestamp l \<le> timestamp m" by blast
      ultimately show False by simp
    qed
    with Some r m show ?thesis by simp
  qed
qed


text \<open>
  Claim C3. When the read of the log succeeds, \<open>get_current_engagement\<close> returns
  absent (\<open>Inr None\<close>) exactly when no event is recorded for the pair of student and
  session; when an event of the pair is later than every other event of the pair, the
  result is the tier of that event, however many other events there are; and every tier
  it returns is the tier of an event of the pair whose timestamp no event of the pair
  exceeds. Absent is the value \<open>None\<close>, which is no tier.
\<close>

theorem current_tier_latest:
  assumes "query_failure d student session = None"
  shows "(get_current_engagement d student session = Inr None)
           = (\<not> (\<exists>l \<in> set (engagement_logs d). student_id l = student \<and> session_id l = session))
       \<and> (\<forall>l \<in> set (engagement_logs d).
             student_id l = student \<and> session_id l = session
             \<and> (\<forall>l' \<in> set (engagement_logs d).
                    student_id l' = student \<and> session_id l' = session \<and> l' \<noteq> l
                    \<longrightarrow> timestamp l' < timestamp l)
             \<longrightarrow> get_current_engagement d student session = Inr (Some (engagement_level l)))
       \<and> (\<forall>t. get_current_engagement d student session = Inr (Some t)
             \<longrightarrow> (\<exists>l \<in> set (engagement_logs d).
                    student_id l = student \<and> session_id l = session \<and> engagement_level l = t
                    \<and> (\<forall>l' \<in> set (engagement_logs d).
                           student_id l' = student \<and> session_id l' = session
                           \<longrightarrow> timestamp l' \<le> timestamp l)))"
proof (intro conjI)
  show "(get_current_engagement d student session = Inr None)
           = (\<not> (\<exists>l \<in> set (engagement_logs d). student_id l = student \<and> session_id l = session))"
    by (rule gce_None[OF assms])
next
  show "\<forall>l \<in> set (engagement_logs d).
             student_id l = student \<and> session_id l = session
             \<and> (\<forall>l' \<in> set (engagement_logs d).
                    student_id l' = student \<and> session_id l' = session \<and> l' \<noteq> l
                    \<longrightarrow> timestamp l' < timestamp l)
             \<longrightarrow> get_current_engagement d student session = Inr (Some (engagement_level l))"
    using gce_unique_latest[OF assms] by blast
next
  show "\<forall>t. get_current_engagement d student session = Inr (Some t)
             \<longrightarrow> (\<exists>l \<in> set (engagement_logs d).
                    student_id l = student \<and> session_id l = session \<and> engagement_level l = t
                    \<and> (\<forall>l' \<in> set (engagement_logs d).
                           student_id l' = student \<and> session_id l' = session
                           \<longrightarrow> timestamp l' \<le> timestamp l))"
    using gce_Some[OF assms] by blast
qed

text \<open>
  The theorem at the example log: student 1 has events at 10, 30 and 20, and the tier
  of the one at 30 is returned; student 3 has none.
\<close>

theorem current_tier_latest_witness:
  "query_failure example_log_db 1 42 = None
   \<and> get_current_engagement example_log_db 1 42 = Inr (Some PASSIVE)
   \<and> get_current_engagement example_log_db 3 42 = Inr None"
proof -
  have h1: "query_failure example_log_db 1 42 = None"
    and h3: "query_failure example_log_db 3 42 = None"
    by (simp_all add: example_log_db_def)
  have "get_current_engagement example_log_db 1 42 = Inr (Some PASSIVE)"
    using current_tier_latest[OF h1] by (simp add: example_log_db_def)
  moreover have "get_current_engagement example_log_db 3 42 = Inr None"
    using current_tier_latest[OF h3] by (simp add: example_log_db_def)
  ultimately show ?thesis using h1 by simp
qed

section \<open>Properties of the adaptive engine: delivery sets\<close>

lemma should_deliver_iff:
  "should_deliver_question t st se = (t \<in> {None, Some PASSIVE, Some MODERATE})"
proof (cases t)
  case None
  then show ?thesis by (simp add: should_deliver_question_def)
next
  case (Some a)
  then show ?thesis by (cases a) (simp_all add: should_deliver_question_def)
qed

lemma should_not_deliver_iff:
  "(\<not> should_deliver_question t st se) = (t = Some ACTIVE)"
proof (cases t)
  case None
  then show ?thesis by (simp add: should_deliver_question_def)
next
  case (Some a)
  then show ?thesis by (cases a) (simp_all add: should_deliver_question_def)
qed

lemma identify_loop_Inr:
  "identify_loop d se sts acc = Inr D \<Longrightarrow>
     D = acc \<union> {st \<in> set sts. get_current_engagement d st se \<in> {Inr None, Inr (Some PASSIVE), Inr (Some MODERATE)}}
     \<and> (\<forall>st \<in> set sts. \<exists>t. get_current_engagement d st se = Inr t)"
proof (induction sts arbitrary: acc)
  case Nil
  then show ?case by simp
next
  case (Cons st sts)
  from Cons.prems obtain t where t: "get_current_engagement d st se = Inr t"
    by (auto split: sum.splits)
  let ?acc = "if should_deliver_question t st se then insert st acc else acc"
  from Cons.prems t have "identify_loop d se sts ?acc = Inr D" by simp
  from Cons.IH[OF this] t show ?case
    by (auto simp: should_deliver_iff)
qed

lemma identify_loop_healthy:
  "\<forall>st \<in> set sts. query_failure d st se = None \<Longrightarrow> \<exists>D. identify_loop d se sts acc = Inr D"
proof (induction sts arbitrary: acc)
  case Nil
  then show ?case by simp
next
  case (Cons st sts)
  then obtain t where t: "get_current_engagement d st se = Inr t"
    using gce_total[of d st se] by auto
  with Cons show ?case by simp
qed


lemma identify_healthy_eq:
  assumes "\<forall>st \<in> set sts. query_failure d st se = None"
  shows "identify_students_needing_questions d se sts
         = Inr {st \<in> set sts. get_current_engagement d st se
                  \<in> {Inr None, Inr (Some PASSIVE), Inr (Some MODERATE)}}"
proof -
  from identify_loop_healthy[OF assms] obtain D where D: "identify_loop d se sts {} = Inr D" ..
  from identify_loop_Inr[OF D] D show ?thesis
    by (simp add: identify_students_needing_questions_def)
qed

lemma monitor_loop_ok:
  assumes "\<forall>st se. query_failure d st se = None" and "\<forall>se D. cb se D = None"
  shows "monitor_loop cb d ss
         = (filter (\<lambda>(se, D). D \<noteq> {})
              (map (\<lambda>(se, roster). (se, {st \<in> set roster. get_current_engagement d st se
                  \<in> {Inr None, Inr (Some PASSIVE), Inr (Some MODERATE)}})) ss), None)"
proof (induction ss)
  case Nil
  show ?case by simp
next
  case (Cons p ss)
  obtain se roster where p: "p = (se, roster)" by (cases p)
  have id: "identify_students_needing_questions d se roster
         = Inr {st \<in> set roster. get_current_engagement d st se
                  \<in> {Inr None, Inr (Some PASSIVE), Inr (Some MODERATE)}}"
    using assms(1) by (intro identify_healthy_eq) simp
  show ?case unfolding p using assms(2) Cons.IH
    by (simp add: id)
qed

lemma monitor_loop_keys: "fst ` set (fst (monitor_loop cb d ss)) \<subseteq> fst ` set ss"
proof (induction ss)
  case Nil
  show ?case by simp
next
  case (Cons p ss)
  obtain se roster where p: "p = (se, roster)" by (cases p)
  show ?case unfolding p using Cons.IH
    by (auto split: sum.splits option.splits prod.splits if_splits; force)
qed

lemma tick_calls_keys:
  "fst ` set (callback_calls (monitor_engagement e database)) \<subseteq> fst ` set (active_sessions e)"
proof (cases "db_session_factory e")
  case None
  then show ?thesis by (simp add: monitor_engagement_def)
next
  case (Some factory)
  note f = this
  show ?thesis
  proof (cases "question_push_callback e")
    case None
    with f show ?thesis by (simp add: monitor_engagement_def)
  next
    case (Some cb)
    obtain calls err where r: "monitor_loop cb (factory database) (active_sessions e) = (calls, err)"
      by (cases "monitor_loop cb (factory database) (active_sessions e)")
    with monitor_loop_keys[of cb "factory database" "active_sessions e"]
    have "fst ` set calls \<subseteq> fst ` set (active_sessions e)" by simp
    with f Some r show ?thesis
      by (cases err) (simp_all add: monitor_engagement_def)
  qed
qed

lemma removed_session_not_called:
  "se \<notin> fst ` set (callback_calls (monitor_engagement (remove_session e se) database))"
proof -
  have "se \<notin> fst ` set (active_sessions (remove_session e se))"
    by (simp add: remove_session_def delete_notin_dom)
  with tick_calls_keys[of "remove_session e se" database] show ?thesis by blast
qed


lemmas scenario_defs = scenario_db0_def scenario_db1_def scenario_db2_def scenario_row1_def
  scenario_row2_def scenario_engine_def add_session_def initialize_def AdaptiveEngine_init_def
  remove_session_def monitor_engagement_def identify_students_needing_questions_def
  get_current_engagement_def order_by_timestamp_desc_def query_first_def
  should_deliver_question_def log_engagement_def classify_engagement_def EngagementService_init_def
  next_log_id_def classify_with_rules_def Let_def

lemma healthy_tier_cases:
  assumes "query_failure d st se = None"
  shows "(get_current_engagement d st se \<in> {Inr None, Inr (Some PASSIVE), Inr (Some MODERATE)})
         = (get_current_engagement d st se \<noteq> Inr (Some ACTIVE))"
proof -
  from gce_total[OF assms] obtain r where r: "get_current_engagement d st se = Inr r" ..
  show ?thesis
  proof (cases r)
    case None
    with r show ?thesis by simp
  next
    case (Some a)
    with r show ?thesis by (cases a) simp_all
  qed
qed

lemma tick_healthy_eq:
  assumes "db_session_factory e = Some factory" and "question_push_callback e = Some callback"
    and "\<forall>student session. query_failure (factory database) student session = None"
    and "\<forall>session students. callback session students = None"
  shows "monitor_engagement e database
         = \<lparr>callback_calls =
              filter (\<lambda>(session, students). students \<noteq> {})
                (map (\<lambda>(session, roster).
                        (session, {st \<in> set roster. get_current_engagement (factory database) st session
                                     \<in> {Inr None, Inr (Some PASSIVE), Inr (Some MODERATE)}}))
                   (active_sessions e)),
            error_log = [], db_closed = True\<rparr>"
  using assms(1,2) monitor_loop_ok[OF assms(3,4), of "active_sessions e"]
  by (simp add: monitor_engagement_def)

text \<open>
  Claim C1. With the collaborators wired, store reads that succeed and a callback that
  returns normally: for every session and roster the delivery set is the set of the
  roster's students whose current tier is absent, PASSIVE or MODERATE, which is the
  roster without the students whose tier is ACTIVE; one tick calls the callback, in the
  order of the sessions, with exactly the non-empty delivery sets and logs no error; and
  no tick calls the callback for a session that was removed. In the scenario of session
  42 with roster 1 and 2, the tick on the empty log delivers to both; after student 1 is
  logged ACTIVE and student 2 PASSIVE the tick delivers to student 2 only; after the
  session is removed the tick makes no call.
\<close>

theorem tick_delivery_sets:
  assumes "db_session_factory e = Some factory" and "question_push_callback e = Some callback"
    and "\<forall>student session. query_failure (factory database) student session = None"
    and "\<forall>session students. callback session students = None"
  shows "identify_students_needing_questions (factory database) session roster
           = Inr {st \<in> set roster. get_current_engagement (factory database) st session
                     \<in> {Inr None, Inr (Some PASSIVE), Inr (Some MODERATE)}}
       \<and> {st \<in> set roster. get_current_engagement (factory database) st session
                     \<in> {Inr None, Inr (Some PASSIVE), Inr (Some MODERATE)}}
           = set roster - {st. get_current_engagement (factory database) st session = Inr (Some ACTIVE)}
       \<and> callback_calls (monitor_engagement e database)
           = filter (\<lambda>(session, students). students \<noteq> {})
               (map (\<lambda>(session, roster).
                       (session, {st \<in> set roster. get_current_engagement (factory database) st session
                                    \<in> {Inr None, Inr (Some PASSIVE), Inr (Some MODERATE)}}))
                  (active_sessions e))
       \<and> error_log (monitor_engagement e database) = []
       \<and> session \<notin> fst ` set (callback_calls (monitor_engagement (remove_session e session) database))
       \<and> callback_calls (monitor_engagement scenario_engine scenario_db0) = [(42, {1, 2})]
       \<and> log_engagement EngagementService_init scenario_db0 1 42 1000 True 10
           = Inr (scenario_row1, scenario_db1)
       \<and> log_engagement EngagementService_init scenario_db1 2 42 9000 False 20
           = Inr (scenario_row2, scenario_db2)
       \<and> callback_calls (monitor_engagement scenario_engine scenario_db2) = [(42, {2})]
       \<and> callback_calls (monitor_engagement (remove_session scenario_engine 42) scenario_db2) = []"
proof -
  have a: "identify_students_needing_questions (factory database) session roster
           = Inr {st \<in> set roster. get_current_engagement (factory database) st session
                     \<in> {Inr None, Inr (Some PASSIVE), Inr (Some MODERATE)}}"
    using assms(3) by (intro identify_healthy_eq) simp
  have b: "{st \<in> set roster. get_current_engagement (factory database) st session
                     \<in> {Inr None, Inr (Some PASSIVE), Inr (Some MODERATE)}}
           = set roster - {st. get_current_engagement (factory database) st session = Inr (Some ACTIVE)}"
    using assms(3) healthy_tier_cases[of "factory database" _ session] by blast
  note t = tick_healthy_eq[OF assms]
  have c: "callback_calls (monitor_engagement e database)
           = filter (\<lambda>(session, students). students \<noteq> {})
               (map (\<lambda>(session, roster).
                       (session, {st \<in> set roster. get_current_engagement (factory database) st session
                                    \<in> {Inr None, Inr (Some PASSIVE), Inr (Some MODERATE)}}))
                  (active_sessions e))"
    by (simp add: t)
  have d: "error_log (monitor_engagement e database) = []"
    by (simp add: t)
  have r: "session \<notin> fst ` set (callback_calls (monitor_engagement (remove_session e session) database))"
    by (rule removed_session_not_called)
  have s1: "callback_calls (monitor_engagement scenario_engine scenario_db0) = [(42, {1, 2})]"
    by (simp add: scenario_defs insert_commute)
  have s2: "log_engagement EngagementService_init scenario_db0 1 42 1000 True 10
           = Inr (scenario_row1, scenario_db1)"
    by (simp add: scenario_defs classify_factory_rules)
  have s3: "log_engagement EngagementService_init scenario_db1 2 42 9000 False 20
           = Inr (scenario_row2, scenario_db2)"
    by (simp add: scenario_defs classify_factory_rules)
  have s4: "callback_calls (monitor_engagement scenario_engine scenario_db2) = [(42, {2})]"
    by (simp add: scenario_defs)
  have s5: "callback_calls (monitor_engagement (remove_session scenario_engine 42) scenario_db2) = []"
    by (simp add: scenario_defs)
  from a b c d r s1 s2 s3 s4 s5 show ?thesis by (intro conjI)
qed

text \<open>
  The theorem at the scenario's engine and the log after both responses. For session 42
  and a roster of students 1, 2 and 3: student 1 is ACTIVE and left out, student 2 is
  PASSIVE and student 3 has no event, so both are delivered to. The tick over the
  engine's sessions calls the callback for session 42 with student 2 alone.
\<close>

theorem tick_delivery_sets_witness:
  "db_session_factory scenario_engine = Some (\<lambda>d. d)
   \<and> question_push_callback scenario_engine = Some (\<lambda>session students. None)
   \<and> identify_students_needing_questions scenario_db2 42 [1, 2, 3] = Inr {2, 3}
   \<and> monitor_engagement scenario_engine scenario_db2
       = \<lparr>callback_calls = [(42, {2})], error_log = [], db_closed = True\<rparr>"
proof -
  have h1: "db_session_factory scenario_engine = Some (\<lambda>d. d)"
    and h2: "question_push_callback scenario_engine = Some (\<lambda>session students. None)"
    by (simp_all add: scenario_engine_def add_session_def initialize_def)
  have h3: "\<forall>student session. query_failure ((\<lambda>d. d) scenario_db2) student session = None"
    by (simp add: scenario_db2_def scenario_db0_def)
  have h4: "\<forall>session students. (\<lambda>session students. None :: exn option) session students = None"
    by simp
  note inst = tick_delivery_sets[OF h1 h2 h3 h4, of 42 "[1, 2, 3]"]
  have tiers: "get_current_engagement scenario_db2 1 42 = Inr (Some ACTIVE)"
    "get_current_engagement scenario_db2 2 42 = Inr (Some PASSIVE)"
    "get_current_engagement scenario_db2 3 42 = Inr None"
    by (simp_all add: scenario_defs)
  have "identify_students_needing_questions scenario_db2 42 [1, 2, 3]
        = Inr {st \<in> set [1, 2, 3]. get_current_engagement scenario_db2 st 42
                     \<in> {Inr None, Inr (Some PASSIVE), Inr (Some MODERATE)}}"
    using inst[THEN conjunct1] by simp
  also have "{st \<in> set [1, 2, 3]. get_current_engagement scenario_db2 st 42
                     \<in> {Inr None, Inr (Some PASSIVE), Inr (Some MODERATE)}} = {2, 3}"
    using tiers by auto
  finally have i: "identify_students_needing_questions scenario_db2 42 [1, 2, 3] = Inr {2, 3}" .
  have sess: "active_sessions scenario_engine = [(42, [1, 2])]"
    by (simp add: scenario_engine_def add_session_def initialize_def AdaptiveEngine_init_def)
  have two: "{st \<in> set [1, 2]. get_current_engagement scenario_db2 st 42
                     \<in> {Inr None, Inr (Some PASSIVE), Inr (Some MODERATE)}} = {2}"
    using tiers by auto
  have "callback_calls (monitor_engagement scenario_engine scenario_db2)
        = filter (\<lambda>(session, students). students \<noteq> {})
               (map (\<lambda>(session, roster).
                       (session, {st \<in> set roster. get_current_engagement scenario_db2 st session
                                    \<in> {Inr None, Inr (Some PASSIVE), Inr (Some MODERATE)}}))
                  (active_sessions scenario_engine))"
    by (rule inst[THEN conjunct2, THEN conjunct2, THEN conjunct1])
  also have "\<dots> = [(42, {2})]"
    by (simp only: sess list.map prod.case two) simp
  finally have c: "callback_calls (monitor_engagement scenario_engine scenario_db2) = [(42, {2})]" .
  have l: "error_log (monitor_engagement scenario_engine scenario_db2) = []"
    using inst by blast
  have cl: "db_closed (monitor_engagement scenario_engine scenario_db2) = True"
    by (simp add: scenario_defs)
  have "monitor_engagement scenario_engine scenario_db2
       = \<lparr>callback_calls = [(42, {2})], error_log = [], db_closed = True\<rparr>"
    using c l cl by (cases "monitor_engagement scenario_engine scenario_db2") simp
  with h1 h2 i show ?thesis by simp
qed

section \<open>Properties of the adaptive engine: errors during a tick\<close>

lemma monitor_loop_append:
  "monitor_loop cb d xs = (calls, None) \<Longrightarrow>
   monitor_loop cb d (xs @ ys)
     = (calls @ fst (monitor_loop cb d ys), snd (monitor_loop cb d ys))"
proof (induction xs arbitrary: calls)
  case Nil
  then show ?case by simp
next
  case (Cons p xs)
  obtain se roster where p: "p = (se, roster)" by (cases p)
  from Cons.prems show ?case unfolding p
    by (auto split: sum.splits option.splits prod.splits if_splits simp: Cons.IH)
qed

lemma monitor_loop_failed_head:
  "monitor_loop cb d [p] = (attempt, Some err) \<Longrightarrow> monitor_loop cb d (p # ys) = (attempt, Some err)"
  by (cases p) (auto split: sum.splits option.splits if_splits)

lemma tick_error_eq:
  assumes "db_session_factory e = Some factory" and "question_push_callback e = Some callback"
    and "active_sessions e = before @ (session, roster) # rest"
    and "monitor_loop callback (factory database) before = (calls, None)"
    and "monitor_loop callback (factory database) [(session, roster)] = (attempt, Some err)"
  shows "monitor_engagement e database
         = \<lparr>callback_calls = calls @ attempt,
            error_log = [ErrorInEngagementMonitoring err], db_closed = True\<rparr>"
proof -
  have "monitor_loop callback (factory database) (active_sessions e) = (calls @ attempt, Some err)"
    unfolding assms(3)
    using monitor_loop_append[OF assms(4)] monitor_loop_failed_head[OF assms(5)] by simp
  with assms(1,2) show ?thesis by (simp add: monitor_engagement_def)
qed

text \<open>
  Claim C4, as stated, fails. The loop over the sessions stands inside one
  \<^verbatim>\<open>try\<close>, so the first exception ends the loop. With sessions 1 and 2 and a
  callback that raises for session 1, the tick calls the callback for session 1, logs
  the error and never evaluates session 2, although the tick without session 1
  dispatches to student 20 of session 2. The same happens when the store read for a
  student of session 1 raises.
\<close>

theorem tick_error_skips_later_sessions:
  "monitor_engagement two_session_engine scenario_db0
     = \<lparr>callback_calls = [(1, {10})],
        error_log = [ErrorInEngagementMonitoring (CollaboratorError ''push failed'')],
        db_closed = True\<rparr>
   \<and> monitor_engagement (remove_session two_session_engine 1) scenario_db0
     = \<lparr>callback_calls = [(2, {20})], error_log = [], db_closed = True\<rparr>
   \<and> monitor_engagement quiet_two_session_engine unreadable_db
     = \<lparr>callback_calls = [],
        error_log = [ErrorInEngagementMonitoring (CollaboratorError ''store read failed'')],
        db_closed = True\<rparr>
   \<and> monitor_engagement (remove_session quiet_two_session_engine 1) unreadable_db
     = \<lparr>callback_calls = [(2, {20})], error_log = [], db_closed = True\<rparr>"
  by (simp add: two_session_engine_def quiet_two_session_engine_def unreadable_db_def
      failing_callback_def scenario_defs)

text \<open>
  Claim C4, amended. An exception raised while a session is evaluated or dispatched is
  caught and logged once for the whole tick, which returns normally and closes its
  database session. The sessions before the failing one, in the order of the
  dictionary, keep the calls an error-free pass makes for them; the call that raised,
  if the callback raised, is the last one; no session after the failing one is
  evaluated or dispatched in that tick, whatever those sessions are.
\<close>

theorem tick_error_caught_at_tick_level:
  assumes "db_session_factory e = Some factory" and "question_push_callback e = Some callback"
    and "active_sessions e = before @ (session, roster) # rest"
    and "monitor_loop callback (factory database) before = (calls, None)"
    and "monitor_loop callback (factory database) [(session, roster)] = (attempt, Some err)"
  shows "monitor_engagement e database
           = \<lparr>callback_calls = calls @ attempt,
              error_log = [ErrorInEngagementMonitoring err], db_closed = True\<rparr>
       \<and> fst ` set (callback_calls (monitor_engagement e database))
           \<subseteq> fst ` set before \<union> {session}"
proof -
  note eq = tick_error_eq[OF assms]
  have "fst ` set calls \<subseteq> fst ` set before"
    using monitor_loop_keys[of callback "factory database" before] assms(4) by simp
  moreover have "fst ` set attempt \<subseteq> {session}"
    using monitor_loop_keys[of callback "factory database" "[(session, roster)]"] assms(5) by simp
  ultimately have "fst ` set (calls @ attempt) \<subseteq> fst ` set before \<union> {session}"
    by auto
  with eq show ?thesis by simp
qed

text \<open>
  The theorem at the engine with sessions 3, 1 and 2, in that order: session 3 is
  dispatched, the callback raises for session 1, session 2 is not reached.
\<close>

theorem tick_error_caught_at_tick_level_witness:
  "monitor_engagement three_session_engine scenario_db0
     = \<lparr>callback_calls = [(3, {30}), (1, {10})],
        error_log = [ErrorInEngagementMonitoring (CollaboratorError ''push failed'')],
        db_closed = True\<rparr>
   \<and> fst ` set (callback_calls (monitor_engagement three_session_engine scenario_db0))
       \<subseteq> fst ` set [(3, [30::int])] \<union> {1::int}"
proof -
  have h1: "db_session_factory three_session_engine = Some (\<lambda>d. d)"
    and h2: "question_push_callback three_session_engine = Some failing_callback"
    and h3: "active_sessions three_session_engine = [(3, [30])] @ (1, [10]) # [(2, [20])]"
    by (simp_all add: three_session_engine_def add_session_def initialize_def
        AdaptiveEngine_init_def)
  have h4: "monitor_loop failing_callback ((\<lambda>d. d) scenario_db0) [(3, [30])] = ([(3, {30})], None)"
    by (simp add: failing_callback_def scenario_defs)
  have h5: "monitor_loop failing_callback ((\<lambda>d. d) scenario_db0) [(1, [10])]
            = ([(1, {10})], Some (CollaboratorError ''push failed''))"
    by (simp add: failing_callback_def scenario_defs)
  show ?thesis
    using tick_error_caught_at_tick_level[OF h1 h2 h3 h4 h5] by simp
qed

section \<open>Properties of the adaptive engine: start without collaborators\<close>

text \<open>
  Claim C9, as stated, fails. \<open>start\<close> has no check and no failure path: the engine
  that was never initialised starts, its tick job is scheduled, and every tick logs an
  error and returns, leaving the registered session 42 unevaluated.
\<close>

theorem start_unwired_succeeds:
  "db_session_factory (start (add_session AdaptiveEngine_init 42 [1, 2])) = None
   \<and> question_push_callback (start (add_session AdaptiveEngine_init 42 [1, 2])) = None
   \<and> running (start (add_session AdaptiveEngine_init 42 [1, 2]))
   \<and> scheduler (start (add_session AdaptiveEngine_init 42 [1, 2]))
       = \<lparr>jobs = [''monitor_engagement''], started = True\<rparr>
   \<and> monitor_engagement (start (add_session AdaptiveEngine_init 42 [1, 2])) scenario_db0
       = \<lparr>callback_calls = [], error_log = [NotProperlyInitialized], db_closed = False\<rparr>"
  by (simp add: start_def add_job_def add_session_def AdaptiveEngine_init_def
      monitor_engagement_def)

text \<open>
  Claim C9, amended. Starting an engine that is not running always succeeds, wired or
  not: the tick job is scheduled, the scheduler is started and the engine is marked
  running. When the database session factory or the question-push callback is missing,
  each tick logs that the engine is not properly initialized and returns without
  opening a database session, evaluating a session or calling the callback.
\<close>

theorem start_unwired_ticks_are_noops:
  assumes "db_session_factory e = None \<or> question_push_callback e = None"
    and "\<not> running e"
  shows "running (start e)
       \<and> started (scheduler (start e))
       \<and> ''monitor_engagement'' \<in> set (jobs (scheduler (start e)))
       \<and> active_sessions (start e) = active_sessions e
       \<and> monitor_engagement (start e) database
           = \<lparr>callback_calls = [], error_log = [NotProperlyInitialized], db_closed = False\<rparr>"
proof -
  have s: "running (start e)" "started (scheduler (start e))"
    "''monitor_engagement'' \<in> set (jobs (scheduler (start e)))"
    "active_sessions (start e) = active_sessions e"
    using assms(2) by (simp_all add: start_def add_job_def)
  have w: "db_session_factory (start e) = db_session_factory e"
    "question_push_callback (start e) = question_push_callback e"
    by (simp_all add: start_def)
  have "monitor_engagement (start e) database
           = \<lparr>callback_calls = [], error_log = [NotProperlyInitialized], db_closed = False\<rparr>"
    using assms(1) w
    by (auto simp add: monitor_engagement_def split: option.splits)
  with s show ?thesis by simp
qed

text \<open>The theorem at the engine that has a callback but no session factory.\<close>

theorem start_unwired_ticks_are_noops_witness:
  "running (start (AdaptiveEngine_init\<lparr>question_push_callback := Some failing_callback\<rparr>))
   \<and> monitor_engagement
         (start (AdaptiveEngine_init\<lparr>question_push_callback := Some failing_callback\<rparr>))
         scenario_db2
       = \<lparr>callback_calls = [], error_log = [NotProperlyInitialized], db_closed = False\<rparr>"
proof -
  have h1: "db_session_factory (AdaptiveEngine_init\<lparr>question_push_callback := Some failing_callback\<rparr>) = None
            \<or> question_push_callback (AdaptiveEngine_init\<lparr>question_push_callback := Some failing_callback\<rparr>) = None"
    and h2: "\<not> running (AdaptiveEngine_init\<lparr>question_push_callback := Some failing_callback\<rparr>)"
    by (simp_all add: AdaptiveEngine_init_def)
  show ?thesis
    using start_unwired_ticks_are_noops[OF h1 h2, of scenario_db2] by simp
qed

section \<open>Properties of the session manager\<close>

lemma find_update_first:
  "(\<And>x. P (f x) = P x) \<Longrightarrow> List.find P (update_first P f xs) = map_option f (List.find P xs)"
  by (induction xs) simp_all

lemma query_commit_same:
  "(\<And>s. row_id (f s) = row_id s) \<Longrightarrow>
   query_session (commit_session d key f) key = map_option f (query_session d key)"
  by (simp add: query_session_def commit_session_def find_update_first)

lemma session_lifecycle_example:
  "create_session SessionManager_init scenario_db0 7 None 0 = (pending_row, pending_session_db)
   \<and> start_session SessionManager_init pending_session_db 1 [1, 2]
       = Inr (monitoring_manager, active_session_db)
   \<and> stop_session monitoring_manager active_session_db 1 50
       = Inr (SessionManager_init, ended_session_db)"
  by (simp add: create_session_def start_session_def stop_session_def query_session_def
      commit_session_def next_session_id_def pending_row_def pending_session_db_def
      active_session_db_def ended_session_db_def monitoring_manager_def scenario_db0_def
      SessionManager_init_def AdaptiveEngine_init_def add_session_def remove_session_def
      truthy_str_def Let_def)

text \<open>
  Claim C6, as stated, fails. \<open>start_session\<close> does not look at the status: on the
  session that was created, started and stopped (status ENDED, end time 50) it returns
  normally, sets the status back to ACTIVE and registers the roster with the engine.
\<close>

theorem start_ended_session_reactivates:
  "query_session ended_session_db 1
     = Some (pending_row\<lparr>status := Status_ENDED, end_time := Some 50\<rparr>)
   \<and> start_session SessionManager_init ended_session_db 1 [1, 2]
     = Inr (monitoring_manager,
            scenario_db0\<lparr>sessions := [pending_row\<lparr>status := Status_ACTIVE, end_time := Some 50\<rparr>]\<rparr>)"
  by (simp add: start_session_def query_session_def commit_session_def pending_row_def
      ended_session_db_def monitoring_manager_def scenario_db0_def SessionManager_init_def
      AdaptiveEngine_init_def add_session_def truthy_str_def Let_def)

text \<open>
  Claim C6, amended. \<open>start_session\<close> on an unknown session fails with the not-found
  error. On a known session it succeeds whatever the status of the session is, PENDING,
  ACTIVE or ENDED: the row afterwards is the row before with status ACTIVE, and the
  engine monitors the session with the given roster.
\<close>

theorem start_session_outcomes:
  "(query_session d key = None \<longrightarrow> start_session m d key students = Inl (SessionNotFound key))
   \<and> (\<forall>session. query_session d key = Some session \<longrightarrow>
         (\<exists>m' d'. start_session m d key students = Inr (m', d')
            \<and> query_session d' key = Some (session\<lparr>status := Status_ACTIVE\<rparr>)
            \<and> map_of (active_sessions (adaptive_engine m')) key = Some students))"
proof (intro conjI allI impI)
  assume "query_session d key = None"
  then show "start_session m d key students = Inl (SessionNotFound key)"
    by (simp add: start_session_def)
next
  fix session
  assume q: "query_session d key = Some session"
  have "query_session (commit_session d key (\<lambda>s. s\<lparr>status := Status_ACTIVE\<rparr>)) key
        = Some (session\<lparr>status := Status_ACTIVE\<rparr>)"
    using q by (simp add: query_commit_same)
  moreover have "map_of (active_sessions (add_session (adaptive_engine m) key students)) key
        = Some students"
    by (simp add: add_session_def update_conv')
  ultimately show "\<exists>m' d'. start_session m d key students = Inr (m', d')
            \<and> query_session d' key = Some (session\<lparr>status := Status_ACTIVE\<rparr>)
            \<and> map_of (active_sessions (adaptive_engine m')) key = Some students"
    using q by (simp add: start_session_def Let_def)
qed

text \<open>The theorem at the ended session 1, and at the unknown session 2.\<close>

theorem start_session_outcomes_witness:
  "query_session ended_session_db 2 = None
   \<and> start_session SessionManager_init ended_session_db 2 [1, 2] = Inl (SessionNotFound 2)
   \<and> query_session ended_session_db 1
       = Some (pending_row\<lparr>status := Status_ENDED, end_time := Some 50\<rparr>)
   \<and> (\<exists>m' d'. start_session SessionManager_init ended_session_db 1 [1, 2] = Inr (m', d')
          \<and> query_session d' 1 = Some (pending_row\<lparr>status := Status_ACTIVE, end_time := Some 50\<rparr>)
          \<and> map_of (active_sessions (adaptive_engine m')) 1 = Some [1, 2])"
proof -
  have h2: "query_session ended_session_db 2 = None"
    and h1: "query_session ended_session_db 1
       = Some (pending_row\<lparr>status := Status_ENDED, end_time := Some 50\<rparr>)"
    by (simp_all add: query_session_def ended_session_db_def pending_row_def scenario_db0_def)
  have a: "start_session SessionManager_init ended_session_db 2 [1, 2] = Inl (SessionNotFound 2)"
    using start_session_outcomes[of ended_session_db 2 SessionManager_init "[1, 2]"] h2 by simp
  have b: "\<exists>m' d'. start_session SessionManager_init ended_session_db 1 [1, 2] = Inr (m', d')
          \<and> query_session d' 1 = Some (pending_row\<lparr>status := Status_ACTIVE, end_time := Some 50\<rparr>)
          \<and> map_of (active_sessions (adaptive_engine m')) 1 = Some [1, 2]"
    using start_session_outcomes[of ended_session_db 1 SessionManager_init "[1, 2]"] h1
    by (simp add: pending_row_def)
  from h2 a h1 b show ?thesis by (intro conjI)
qed

text \<open>
  Claim C7, as stated, fails in its last part. \<open>stop_session\<close> on the ended session
  raises nothing, but it writes the end time again: stopped a second time at time 99,
  the row that ended at 50 ends at 99.
\<close>

theorem stop_ended_session_moves_end_time:
  "query_session ended_session_db 1
     = Some (pending_row\<lparr>status := Status_ENDED, end_time := Some 50\<rparr>)
   \<and> stop_session SessionManager_init ended_session_db 1 99
     = Inr (SessionManager_init,
            scenario_db0\<lparr>sessions := [pending_row\<lparr>status := Status_ENDED, end_time := Some 99\<rparr>]\<rparr>)
   \<and> scenario_db0\<lparr>sessions := [pending_row\<lparr>status := Status_ENDED, end_time := Some 99\<rparr>]\<rparr>
       \<noteq> ended_session_db"
  by (simp add: stop_session_def query_session_def commit_session_def pending_row_def
      ended_session_db_def scenario_db0_def SessionManager_init_def
      AdaptiveEngine_init_def remove_session_def truthy_str_def Let_def)

text \<open>
  Claim C7, amended. \<open>stop_session\<close> on an unknown session fails with the not-found
  error. On a session that is already ENDED it raises nothing and the status stays ENDED,
  but the end time is set to the time of this call; the other columns keep their values
  and the engine does not monitor the session afterwards.
\<close>

theorem stop_session_outcomes:
  "(query_session d key = None \<longrightarrow> stop_session m d key now = Inl (SessionNotFound key))
   \<and> (\<forall>session. query_session d key = Some session \<and> status session = Status_ENDED \<longrightarrow>
         (\<exists>m' d'. stop_session m d key now = Inr (m', d')
            \<and> query_session d' key = Some (session\<lparr>end_time := Some now\<rparr>)
            \<and> key \<notin> fst ` set (active_sessions (adaptive_engine m'))))"
proof (intro conjI allI impI)
  assume "query_session d key = None"
  then show "stop_session m d key now = Inl (SessionNotFound key)"
    by (simp add: stop_session_def)
next
  fix session
  assume a: "query_session d key = Some session \<and> status session = Status_ENDED"
  then have q: "query_session d key = Some session" and e: "status session = Status_ENDED"
    by simp_all
  have same: "session\<lparr>status := Status_ENDED, end_time := Some now\<rparr> = session\<lparr>end_time := Some now\<rparr>"
    using e by (cases session) simp
  have "query_session (commit_session d key (\<lambda>s. s\<lparr>status := Status_ENDED, end_time := Some now\<rparr>)) key
        = Some (session\<lparr>end_time := Some now\<rparr>)"
    using q same by (simp add: query_commit_same)
  moreover have "key \<notin> fst ` set (active_sessions (remove_session (adaptive_engine m) key))"
    by (simp add: remove_session_def delete_notin_dom)
  ultimately show "\<exists>m' d'. stop_session m d key now = Inr (m', d')
            \<and> query_session d' key = Some (session\<lparr>end_time := Some now\<rparr>)
            \<and> key \<notin> fst ` set (active_sessions (adaptive_engine m'))"
    using q by (simp add: stop_session_def Let_def)
qed

text \<open>The theorem at the ended session 1, stopped again at time 99, and at the unknown
  session 2.\<close>

theorem stop_session_outcomes_witness:
  "query_session ended_session_db 2 = None
   \<and> stop_session SessionManager_init ended_session_db 2 99 = Inl (SessionNotFound 2)
   \<and> query_session ended_session_db 1
       = Some (pending_row\<lparr>status := Status_ENDED, end_time := Some 50\<rparr>)
   \<and> (\<exists>m' d'. stop_session SessionManager_init ended_session_db 1 99 = Inr (m', d')
          \<and> query_session d' 1 = Some (pending_row\<lparr>status := Status_ENDED, end_time := Some 99\<rparr>)
          \<and> 1 \<notin> fst ` set (active_sessions (adaptive_engine m')))"
proof -
  have h2: "query_session ended_session_db 2 = None"
    and h1: "query_session ended_session_db 1
       = Some (pending_row\<lparr>status := Status_ENDED, end_time := Some 50\<rparr>)"
    by (simp_all add: query_session_def ended_session_db_def pending_row_def scenario_db0_def)
  have a: "stop_session SessionManager_init ended_session_db 2 99 = Inl (SessionNotFound 2)"
    using stop_session_outcomes[of ended_session_db 2 SessionManager_init 99] h2 by simp
  have b: "\<exists>m' d'. stop_session SessionManager_init ended_session_db 1 99 = Inr (m', d')
          \<and> query_session d' 1 = Some (pending_row\<lparr>status := Status_ENDED, end_time := Some 99\<rparr>)
          \<and> 1 \<notin> fst ` set (active_sessions (adaptive_engine m'))"
    using stop_session_outcomes[of ended_session_db 1 SessionManager_init 99] h1
    by (simp add: pending_row_def)
  from h2 a h1 b show ?thesis by (intro conjI)
qed

section \<open>Properties of the connection registries: sending\<close>

lemma send_each_map:
  "send_each send_json chans
   = map (\<lambda>ws. case send_json ws of None \<Rightarrow> Sent ws | Some e \<Rightarrow> SendError ws e) chans"
  by (induction chans) simp_all

lemma registry_examples:
  "student_connections two_channel_students = [(1, [1, 2])]"
  "student_sessions two_channel_students = [(1, 7), (2, 7)]"
  "instructor_connections two_channel_instructor = [(3, [1, 2])]"
  "instructor_sessions two_channel_instructor = [(1, 3), (2, 3)]"
  by (simp_all add: two_channel_students_def two_channel_instructor_def student_connect_def
      instructor_connect_def StudentWebSocketManager_init_def InstructorWebSocketManager_init_def
      set_add_def Let_def)

text \<open>
  Claim C5, as stated, fails on the student side. \<open>send_question_to_student\<close> looks
  for one channel of the student and stops at the first it finds: with student 7 of
  session 1 on the channels 1 and 2, a send attempts channel 1 alone, and when that send
  raises, channel 2 is not tried.
\<close>

theorem student_send_uses_one_channel:
  "student_connections two_channel_students = [(1, [1, 2])]
   \<and> student_sessions two_channel_students = [(1, 7), (2, 7)]
   \<and> send_question_to_student two_channel_students (\<lambda>ws. None) 1 7 = [Sent 1]
   \<and> send_question_to_student two_channel_students first_channel_fails 1 7
       = [SendError 1 (CollaboratorError ''send failed'')]"
  by (simp add: registry_examples send_question_to_student_def first_channel_fails_def)

text \<open>
  Claim C5, amended. On the instructor side a send attempts delivery once on every
  channel of the owner, in turn; a channel whose send raises is logged and the
  remaining channels are still attempted, and nothing is raised to the caller. On the
  student side a send logs exactly one event: it attempts delivery on one channel only,
  a channel registered for that student in that session, and it does attempt one
  whenever the student has such a channel; a failure there is logged, not raised, and
  no other channel is tried.
\<close>

theorem send_attempts:
  "send_dashboard_update im send_json instructor
     = map (\<lambda>ws. case send_json ws of None \<Rightarrow> Sent ws | Some e \<Rightarrow> SendError ws e)
         (case map_of (instructor_connections im) instructor of None \<Rightarrow> [] | Some chans \<Rightarrow> chans)
   \<and> length (send_question_to_student sm send_json session student) = 1
   \<and> (\<forall>ws. Sent ws \<in> set (send_question_to_student sm send_json session student) \<longrightarrow>
          send_json ws = None \<and> (ws, student) \<in> set (student_sessions sm)
          \<and> (\<exists>chans. map_of (student_connections sm) session = Some chans \<and> ws \<in> set chans))
   \<and> (\<forall>ws e. SendError ws e \<in> set (send_question_to_student sm send_json session student) \<longrightarrow>
          send_json ws = Some e \<and> (ws, student) \<in> set (student_sessions sm)
          \<and> (\<exists>chans. map_of (student_connections sm) session = Some chans \<and> ws \<in> set chans))
   \<and> ((\<exists>ws chans. (ws, student) \<in> set (student_sessions sm)
          \<and> map_of (student_connections sm) session = Some chans \<and> ws \<in> set chans) \<longrightarrow>
       (\<exists>ws. Sent ws \<in> set (send_question_to_student sm send_json session student)
          \<or> (\<exists>e. SendError ws e \<in> set (send_question_to_student sm send_json session student))))"
proof -
  let ?P = "\<lambda>(ws, sid). sid = student \<and> ws \<in> set (the (map_of (student_connections sm) session))"
  let ?tr = "send_question_to_student sm send_json session student"
  have key: "(session \<in> fst ` set (student_connections sm))
             = (\<exists>chans. map_of (student_connections sm) session = Some chans)"
    using map_of_eq_None_iff[of "student_connections sm" session] by auto
  have i: "send_dashboard_update im send_json instructor
     = map (\<lambda>ws. case send_json ws of None \<Rightarrow> Sent ws | Some e \<Rightarrow> SendError ws e)
         (case map_of (instructor_connections im) instructor of None \<Rightarrow> [] | Some chans \<Rightarrow> chans)"
  proof (cases "map_of (instructor_connections im) instructor")
    case None
    then have "instructor \<notin> fst ` set (instructor_connections im)"
      by (simp add: map_of_eq_None_iff)
    with None show ?thesis by (simp add: send_dashboard_update_def)
  next
    case (Some chans)
    then have "instructor \<in> fst ` set (instructor_connections im)"
      using map_of_eq_None_iff[of "instructor_connections im" instructor] by auto
    with Some show ?thesis by (simp add: send_dashboard_update_def send_each_map)
  qed
  have l: "length ?tr = 1"
    by (simp add: send_question_to_student_def split: option.splits prod.splits)
  have tr_cases: "?tr = [NoActiveConnections session]
      \<or> ?tr = [StudentNotConnected student session]
      \<or> (\<exists>t chans. map_of (student_connections sm) session = Some chans
             \<and> (t, student) \<in> set (student_sessions sm) \<and> t \<in> set chans
             \<and> ?tr = [case send_json t of None \<Rightarrow> Sent t | Some e \<Rightarrow> SendError t e])"
  proof (cases "session \<in> fst ` set (student_connections sm)")
    case False
    then show ?thesis by (simp add: send_question_to_student_def)
  next
    case True
    then obtain chans where ch: "map_of (student_connections sm) session = Some chans"
      using key by blast
    show ?thesis
    proof (cases "List.find ?P (student_sessions sm)")
      case None
      with True show ?thesis by (simp add: send_question_to_student_def)
    next
      case (Some p)
      obtain t sid where p: "p = (t, sid)" by (cases p)
      from Some p have "?P (t, sid)" and "(t, sid) \<in> set (student_sessions sm)"
        by (auto simp: find_Some_iff in_set_conv_nth)
      with ch have m: "(t, student) \<in> set (student_sessions sm)" "t \<in> set chans"
        by simp_all
      have "?tr = [case send_json t of None \<Rightarrow> Sent t | Some e \<Rightarrow> SendError t e]"
        using True Some p
        by (cases "send_json t") (simp_all add: send_question_to_student_def)
      with ch m show ?thesis by blast
    qed
  qed
  have s: "\<forall>ws. Sent ws \<in> set ?tr \<longrightarrow>
          send_json ws = None \<and> (ws, student) \<in> set (student_sessions sm)
          \<and> (\<exists>chans. map_of (student_connections sm) session = Some chans \<and> ws \<in> set chans)"
  proof (intro allI impI)
    fix ws
    assume h: "Sent ws \<in> set ?tr"
    from tr_cases h obtain t chans where
      c: "map_of (student_connections sm) session = Some chans"
         "(t, student) \<in> set (student_sessions sm)" "t \<in> set chans"
         "?tr = [case send_json t of None \<Rightarrow> Sent t | Some e \<Rightarrow> SendError t e]"
      by auto
    from h c(4) have "ws = t \<and> send_json t = None"
      by (cases "send_json t") simp_all
    with c show "send_json ws = None \<and> (ws, student) \<in> set (student_sessions sm)
          \<and> (\<exists>chans. map_of (student_connections sm) session = Some chans \<and> ws \<in> set chans)"
      by simp
  qed
  have f: "\<forall>ws e. SendError ws e \<in> set ?tr \<longrightarrow>
          send_json ws = Some e \<and> (ws, student) \<in> set (student_sessions sm)
          \<and> (\<exists>chans. map_of (student_connections sm) session = Some chans \<and> ws \<in> set chans)"
  proof (intro allI impI)
    fix ws e
    assume h: "SendError ws e \<in> set ?tr"
    from tr_cases h obtain t chans where
      c: "map_of (student_connections sm) session = Some chans"
         "(t, student) \<in> set (student_sessions sm)" "t \<in> set chans"
         "?tr = [case send_json t of None \<Rightarrow> Sent t | Some e \<Rightarrow> SendError t e]"
      by auto
    from h c(4) have "ws = t \<and> send_json t = Some e"
      by (cases "send_json t") simp_all
    with c show "send_json ws = Some e \<and> (ws, student) \<in> set (student_sessions sm)
          \<and> (\<exists>chans. map_of (student_connections sm) session = Some chans \<and> ws \<in> set chans)"
      by simp
  qed
  have a: "(\<exists>ws chans. (ws, student) \<in> set (student_sessions sm)
          \<and> map_of (student_connections sm) session = Some chans \<and> ws \<in> set chans) \<longrightarrow>
       (\<exists>ws. Sent ws \<in> set ?tr \<or> (\<exists>e. SendError ws e \<in> set ?tr))"
  proof
    assume "\<exists>ws chans. (ws, student) \<in> set (student_sessions sm)
          \<and> map_of (student_connections sm) session = Some chans \<and> ws \<in> set chans"
    then obtain ws chans where w: "(ws, student) \<in> set (student_sessions sm)"
      "map_of (student_connections sm) session = Some chans" "ws \<in> set chans" by blast
    from w(2) have in_keys: "session \<in> fst ` set (student_connections sm)" using key by blast
    from w have "?P (ws, student)" by simp
    with w(1) have "List.find ?P (student_sessions sm) \<noteq> None"
      unfolding find_None_iff by blast
    then obtain p where p: "List.find ?P (student_sessions sm) = Some p" by blast
    obtain t sid where ts: "p = (t, sid)" by (cases p)
    show "\<exists>ws. Sent ws \<in> set ?tr \<or> (\<exists>e. SendError ws e \<in> set ?tr)"
    proof (cases "send_json t")
      case None
      with in_keys p ts have "?tr = [Sent t]" by (simp add: send_question_to_student_def)
      then show ?thesis by auto
    next
      case (Some e)
      with in_keys p ts have "?tr = [SendError t e]" by (simp add: send_question_to_student_def)
      then show ?thesis by auto
    qed
  qed
  from i l s f a show ?thesis by (intro conjI)
qed

text \<open>
  The theorem at the two registries with two channels of one owner, on the transport
  where channel 1 raises: the instructor side logs the error for channel 1 and sends on
  channel 2; the student side logs the error for channel 1 and that is all.
\<close>

theorem send_attempts_witness:
  "send_dashboard_update two_channel_instructor first_channel_fails 3
     = [SendError 1 (CollaboratorError ''send failed''), Sent 2]
   \<and> length (send_question_to_student two_channel_students first_channel_fails 1 7) = 1
   \<and> SendError 1 (CollaboratorError ''send failed'')
       \<in> set (send_question_to_student two_channel_students first_channel_fails 1 7)
   \<and> first_channel_fails 1 = Some (CollaboratorError ''send failed'')
   \<and> (1, 7) \<in> set (student_sessions two_channel_students)"
proof -
  note inst = send_attempts[of two_channel_instructor first_channel_fails 3
      two_channel_students 1 7]
  have a: "send_dashboard_update two_channel_instructor first_channel_fails 3
     = [SendError 1 (CollaboratorError ''send failed''), Sent 2]"
    using inst[THEN conjunct1] by (simp add: registry_examples first_channel_fails_def)
  have b: "length (send_question_to_student two_channel_students first_channel_fails 1 7) = 1"
    using inst by blast
  have c: "SendError 1 (CollaboratorError ''send failed'')
       \<in> set (send_question_to_student two_channel_students first_channel_fails 1 7)"
    by (simp add: registry_examples send_question_to_student_def first_channel_fails_def)
  have d: "first_channel_fails 1 = Some (CollaboratorError ''send failed'')
       \<and> (1, 7) \<in> set (student_sessions two_channel_students)"
    using inst c by blast
  from a b c d show ?thesis by simp
qed

section \<open>Properties of the connection registries: disconnect\<close>

lemma instructor_disconnect_unregistered:
  "websocket \<notin> fst ` set (instructor_sessions m) \<Longrightarrow> instructor_disconnect m websocket = Inr m"
proof -
  assume a: "websocket \<notin> fst ` set (instructor_sessions m)"
  then have "map_of (instructor_sessions m) websocket = None"
    by (simp add: map_of_eq_None_iff)
  with a show ?thesis
    by (simp add: instructor_disconnect_def truthy_int_def)
qed

lemma instructor_disconnect_unregisters:
  assumes "instructor_disconnect m websocket = Inr m'"
  shows "websocket \<notin> fst ` set (instructor_sessions m')"
proof -
  from assms have "instructor_sessions m'
      = (if websocket \<in> fst ` set (instructor_sessions m)
         then AList.delete websocket (instructor_sessions m) else instructor_sessions m)"
    by (auto simp: instructor_disconnect_def Let_def split: sum.splits if_splits)
  then show ?thesis
    using delete_notin_dom[of websocket "instructor_sessions m"]
    by (cases "websocket \<in> fst ` set (instructor_sessions m)") simp_all
qed

lemma instructor_disconnect_twice:
  "instructor_disconnect m websocket = Inr m' \<Longrightarrow> instructor_disconnect m' websocket = Inr m'"
  by (rule instructor_disconnect_unregistered) (rule instructor_disconnect_unregisters)

lemma remove_from_first_absent:
  "\<forall>(session, connections) \<in> set conns. websocket \<notin> set connections \<Longrightarrow>
   remove_from_first websocket conns = conns"
  by (induction conns) auto

lemma student_disconnect_unregistered:
  "websocket \<notin> fst ` set (student_sessions m) \<Longrightarrow>
   \<forall>(session, connections) \<in> set (student_connections m). websocket \<notin> set connections \<Longrightarrow>
   student_disconnect m websocket = m"
  by (simp add: student_disconnect_def remove_from_first_absent)

lemma remove_from_first_twice:
  "length (filter (\<lambda>(session, connections). websocket \<in> set connections) conns) \<le> 1 \<Longrightarrow>
   remove_from_first websocket (remove_from_first websocket conns)
     = remove_from_first websocket conns"
proof (induction conns)
  case Nil
  show ?case by simp
next
  case (Cons p conns)
  obtain session connections where p: "p = (session, connections)" by (cases p)
  show ?case
  proof (cases "websocket \<in> set connections")
    case True
    with Cons.prems p
    have "filter (\<lambda>(session, connections). websocket \<in> set connections) conns = []"
      by simp
    then have "\<forall>(session, connections) \<in> set conns. websocket \<notin> set connections"
      by (auto simp: filter_empty_conv)
    then have "remove_from_first websocket conns = conns"
      by (rule remove_from_first_absent)
    with True p show ?thesis by simp
  next
    case False
    with Cons p show ?thesis by simp
  qed
qed

lemma student_disconnect_twice:
  assumes "length (filter (\<lambda>(session, connections). websocket \<in> set connections)
                     (student_connections m)) \<le> 1"
  shows "student_disconnect (student_disconnect m websocket) websocket
         = student_disconnect m websocket"
proof -
  have "websocket \<notin> fst ` set (student_sessions (student_disconnect m websocket))"
    using delete_notin_dom[of websocket "student_sessions m"]
    by (simp add: student_disconnect_def)
  then show ?thesis
    using remove_from_first_twice[OF assms]
    by (simp add: student_disconnect_def)
qed

lemma instructor_disconnect_nonzero_removes:
  assumes "map_of (instructor_sessions m) websocket = Some owner" and "owner \<noteq> 0"
    and "map_of (instructor_connections m) owner = Some chans" and "websocket \<in> set chans"
  shows "instructor_disconnect m websocket
         = Inr (m\<lparr>instructor_connections :=
                    AList.update owner (removeAll websocket chans) (instructor_connections m),
                  instructor_sessions := AList.delete websocket (instructor_sessions m)\<rparr>)"
proof -
  have k1: "websocket \<in> fst ` set (instructor_sessions m)"
    using assms(1) map_of_eq_None_iff[of "instructor_sessions m" websocket] by auto
  have k2: "owner \<in> fst ` set (instructor_connections m)"
    using assms(3) map_of_eq_None_iff[of "instructor_connections m" owner] by auto
  show ?thesis
    using assms k1 k2
    by (simp add: instructor_disconnect_def truthy_int_def set_remove_def Let_def)
qed

lemma instructor_disconnect_zero_keeps:
  assumes "map_of (instructor_sessions m) websocket = Some 0"
  shows "instructor_disconnect m websocket
         = Inr (m\<lparr>instructor_sessions := AList.delete websocket (instructor_sessions m)\<rparr>)"
proof -
  have k1: "websocket \<in> fst ` set (instructor_sessions m)"
    using assms map_of_eq_None_iff[of "instructor_sessions m" websocket] by auto
  show ?thesis
    using assms k1
    by (simp add: instructor_disconnect_def truthy_int_def Let_def)
qed


text \<open>
  Claim C8 says that disconnecting a channel twice in succession, or a channel that was
  never registered, raises nothing and neither removes an entry twice nor leaves one
  behind, in either registry. The code keeps this on the student side, and on the
  instructor side for an owner other than 0 (lemmas above: disconnecting a channel that
  is not registered changes nothing, and neither does a second disconnect). It breaks it for the
  instructor whose identity is 0: the guard of the removal tests the truth value of the
  identity, so the channel stays in the connection set of instructor 0 after the first
  disconnect and after the second, while its entry in the other map is gone. The
  theorem evaluates both registries on a channel 5 of owner 0.
\<close>

theorem double_disconnect_owner_zero:
  "instructor_disconnect (instructor_connect InstructorWebSocketManager_init 5 0) 5
     = Inr zero_owner_leftover
   \<and> instructor_disconnect zero_owner_leftover 5 = Inr zero_owner_leftover
   \<and> instructor_connections zero_owner_leftover = [(0, [5])]
   \<and> instructor_sessions zero_owner_leftover = []
   \<and> student_disconnect (student_connect StudentWebSocketManager_init 5 0 0) 5
     = \<lparr>student_connections = [(0, [])], student_sessions = []\<rparr>
   \<and> student_disconnect \<lparr>student_connections = [(0, [])], student_sessions = []\<rparr> 5
     = \<lparr>student_connections = [(0, [])], student_sessions = []\<rparr>"
  by (simp add: instructor_connect_def instructor_disconnect_def InstructorWebSocketManager_init_def
      zero_owner_leftover_def set_add_def set_remove_def truthy_int_def
      student_connect_def student_disconnect_def StudentWebSocketManager_init_def Let_def)

text \<open>
  Claim C10 says that a channel in an owner's connection set is always mapped back to
  that owner, so that after \<open>disconnect\<close> the channel is in no fan-out set, for every
  owner identity, 0 included. The code breaks it for owner 0: after channel 5 of
  instructor 0 is connected and disconnected, the channel is still in the connection set
  of instructor 0, no longer mapped to any owner, and a later dashboard update to
  instructor 0 sends on it. The same steps for instructor 1 empty the set.
\<close>

theorem disconnect_owner_zero_keeps_channel:
  "instructor_connect InstructorWebSocketManager_init 5 0
     = \<lparr>instructor_connections = [(0, [5])], instructor_sessions = [(5, 0)]\<rparr>
   \<and> instructor_disconnect (instructor_connect InstructorWebSocketManager_init 5 0) 5
     = Inr zero_owner_leftover
   \<and> map_of (instructor_connections zero_owner_leftover) 0 = Some [5]
   \<and> map_of (instructor_sessions zero_owner_leftover) 5 = None
   \<and> send_dashboard_update zero_owner_leftover (\<lambda>ws. None) 0 = [Sent 5]
   \<and> instructor_disconnect (instructor_connect InstructorWebSocketManager_init 5 1) 5
     = Inr \<lparr>instructor_connections = [(1, [])], instructor_sessions = []\<rparr>
   \<and> send_dashboard_update \<lparr>instructor_connections = [(1, [])], instructor_sessions = []\<rparr>
         (\<lambda>ws. None) 1 = []"
  by (simp add: instructor_connect_def instructor_disconnect_def InstructorWebSocketManager_init_def
      zero_owner_leftover_def send_dashboard_update_def set_add_def set_remove_def truthy_int_def
      Let_def)

end
